theory Spec2Isabelle
  imports Complex_Main
begin

section \<open>Values exchanged with the outside world\<close>

text \<open>
  The repository is one React component, \<^verbatim>\<open>App\<close> in \<^verbatim>\<open>src/App.tsx\<close>, kept in three
  revisions. The first revision (lines 11-88) has neither a progress timer nor a report
  object. The development below embeds the two later revisions: the one with the manual
  API key and the model fallback (lines 116-237, called \<open>V2\<close> here) and the one with
  the typed \<^verbatim>\<open>IntelReport\<close> (lines 514-593, called \<open>V3\<close>).

  What \<^verbatim>\<open>JSON.parse\<close> returns: a JavaScript value. \<open>JNull\<close> is \<^verbatim>\<open>null\<close>, which is
  also the initial value of the \<^verbatim>\<open>report\<close> state.
\<close>

datatype json =
    JNull
  | JBool bool
  | JNum int
  | JStr string
  | JArr "json list"
  | JObj "(string \<times> json) list"

text \<open>
  The object \<^verbatim>\<open>parsePhoneNumberWithError\<close> returns, reduced to what the component reads:
  \<^verbatim>\<open>parsed.number\<close>, \<^verbatim>\<open>parsed.country\<close>, \<^verbatim>\<open>parsed.carrier\<close>, \<^verbatim>\<open>parsed.getType()\<close> and
  \<^verbatim>\<open>parsed.isValid()\<close>. \<open>None\<close> is \<^verbatim>\<open>undefined\<close>.
\<close>

record phone =
  number :: string
  country :: "string option"
  carrier :: "string option"
  getType :: "string option"
  isValid :: bool

text \<open>
  The libraries and the configuration the component reads are parameters of the model.
  A function that throws returns \<open>Inl\<close> with the \<^verbatim>\<open>message\<close> of what it threw (an absent
  message and an empty one behave alike under \<^verbatim>\<open>||\<close>, so both are the empty string).
\<close>

record env =
  parsePhoneNumberWithError :: "string \<Rightarrow> string + phone"
  JSON_parse :: "string \<Rightarrow> string + json"
  GEMINI_API_KEY :: "string option"
  USER_API_KEY :: "string option"
  API_KEY :: "string option"
  VITE_GEMINI_API_KEY :: "string option"

subsection \<open>JavaScript's truthiness on strings\<close>

definition truthy :: "string option \<Rightarrow> bool" where
  "truthy x = (case x of None \<Rightarrow> False | Some s \<Rightarrow> s \<noteq> [])"

text \<open>\<^verbatim>\<open>a || b\<close> on values that are strings or \<^verbatim>\<open>undefined\<close>.\<close>

definition or_js :: "string option \<Rightarrow> string option \<Rightarrow> string option" where
  "or_js a b = (if truthy a then a else b)"

text \<open>\<^verbatim>\<open>x || 'literal'\<close>, where the literal is not empty.\<close>

definition or_else :: "string option \<Rightarrow> string \<Rightarrow> string" where
  "or_else a d = (case a of None \<Rightarrow> d | Some s \<Rightarrow> if s = [] then d else s)"

text \<open>A value interpolated into a template literal: \<^verbatim>\<open>undefined\<close> prints as its name.\<close>

definition interpolate :: "string option \<Rightarrow> string" where
  "interpolate a = (case a of None \<Rightarrow> ''undefined'' | Some s \<Rightarrow> s)"

definition nl :: string where
  "nl = [CHR 0x0A]"

subsection \<open>The prompts\<close>

text \<open>The \<^verbatim>\<open>contents\<close> of the first call of \<open>V2\<close> (lines 181-194).\<close>

definition flash_contents :: "phone \<Rightarrow> string" where
  \<open>flash_contents parsed =
     ''Analyze this phone number metadata:'' @ nl @
     ''            Number: '' @ number parsed @ nl @
     ''            Country: '' @ interpolate (country parsed) @ nl @
     ''            Carrier: '' @ or_else (carrier parsed) ''Unknown'' @ nl @
     ''            '' @ nl @
     ''            Provide a technical intelligence report in Indonesian. '' @ nl @
     ''            Return ONLY a JSON object with this structure:'' @ nl @
     ''            {'' @ nl @
     ''              "summary": "Short overview",'' @ nl @
     ''              "regionDetails": "Specific details about the registration area",'' @ nl @
     ''              "carrierInfo": "Information about the network provider",'' @ nl @
     ''              "securityRisk": "Low" | "Medium" | "High",'' @ nl @
     ''              "recommendations": ["tip 1", "tip 2", "tip 3"]'' @ nl @
     ''            }''\<close>

text \<open>The \<^verbatim>\<open>contents\<close> of the second call of \<open>V2\<close>, in the handler of the first one's
  failure (lines 204-217).\<close>

definition pro_contents :: "phone \<Rightarrow> string" where
  \<open>pro_contents parsed =
     ''Analyze this phone number metadata:'' @ nl @
     ''            Number: '' @ number parsed @ nl @
     ''            Country: '' @ interpolate (country parsed) @ nl @
     ''            Carrier: '' @ or_else (carrier parsed) ''Unknown'' @ nl @
     ''            '' @ nl @
     ''            Provide a technical intelligence report in Indonesian. '' @ nl @
     ''            Return ONLY a JSON object with this structure:'' @ nl @
     ''            {'' @ nl @
     ''              "summary": "Short overview",'' @ nl @
     ''              "regionDetails": "Specific details about the registration area",'' @ nl @
     ''              "carrierInfo": "Information about the network provider",'' @ nl @
     ''              "securityRisk": "Low" | "Medium" | "High",'' @ nl @
     ''              "recommendations": ["tip 1", "tip 2", "tip 3"]'' @ nl @
     ''            }''\<close>

text \<open>The \<^verbatim>\<open>contents\<close> of the only call of \<open>V3\<close> (lines 559-573).\<close>

definition contents_v3 :: "phone \<Rightarrow> string" where
  \<open>contents_v3 parsed =
     ''Analyze this phone number metadata:'' @ nl @
     ''          Number: '' @ number parsed @ nl @
     ''          Country: '' @ interpolate (country parsed) @ nl @
     ''          Carrier: '' @ or_else (carrier parsed) ''Unknown'' @ nl @
     ''          Type: '' @ or_else (getType parsed) ''Unknown'' @ nl @
     ''          '' @ nl @
     ''          Provide a technical intelligence report in Indonesian. '' @ nl @
     ''          Return ONLY a JSON object with this structure:'' @ nl @
     ''          {'' @ nl @
     ''            "summary": "Short overview of the number's origin",'' @ nl @
     ''            "regionDetails": "Specific details about the registration area/region in that country",'' @ nl @
     ''            "carrierInfo": "Information about the network provider and its coverage",'' @ nl @
     ''            "securityRisk": "Low" | "Medium" | "High",'' @ nl @
     ''            "recommendations": ["list of 3 security tips for this type of number"]'' @ nl @
     ''          }''\<close>

section \<open>The component's state and what is pending in the event loop\<close>

datatype variant = V2 | V3

datatype stage = Primary | Fallback

text \<open>
  A call of \<^verbatim>\<open>generateContent\<close> that has not settled yet, with what the suspended
  \<^verbatim>\<open>startScan\<close> holds: which of the two calls it awaits and the \<^verbatim>\<open>parsed\<close> argument.
  \<open>req_session\<close> is a ghost field: the number of the submission that started the scan.
\<close>

record request =
  rid :: nat
  stage :: stage
  subject :: phone
  req_session :: nat

text \<open>
  A \<^verbatim>\<open>setTimeout\<close> callback that has not run yet: the time it is due at and the \<^verbatim>\<open>result\<close>
  its closure holds. \<open>tmo_session\<close> is a ghost field like \<open>req_session\<close>.
\<close>

record timeout =
  tid :: nat
  due :: nat
  result :: json
  tmo_session :: nat

text \<open>
  The \<^verbatim>\<open>useState\<close> cells of the component (\<open>V3\<close> has no \<^verbatim>\<open>manualKey\<close> and no
  \<^verbatim>\<open>showKeyInput\<close>, and never touches them), followed by the event loop's side: whether
  React has unmounted the component after a render that threw, the intervals that are
  set, the timeouts and the requests that are pending, the log of the calls sent to the
  API, the clock in milliseconds, the next fresh handle, and the ghost counter of
  submissions.
\<close>

record app =
  phoneNumber :: string
  isScanning :: bool
  error :: "string option"
  report :: json
  parsedData :: "phone option"
  scanProgress :: real
  manualKey :: string
  showKeyInput :: bool
  unmounted :: bool
  intervals :: "nat list"
  timeouts :: "timeout list"
  requests :: "request list"
  calls :: "(string \<times> string) list"
  now :: nat
  next_id :: nat
  session :: nat

definition init :: app where
  "init = \<lparr> phoneNumber = [], isScanning = False, error = None, report = JNull,
     parsedData = None, scanProgress = 0, manualKey = [], showKeyInput = False,
     unmounted = False, intervals = [], timeouts = [], requests = [], calls = [], now = 0, next_id = 0,
     session = 0 \<rparr>"

text \<open>How a call of the API settles: the promise rejects with an error (its \<^verbatim>\<open>message\<close>),
  or resolves with a response whose \<^verbatim>\<open>text\<close> is a string or \<^verbatim>\<open>undefined\<close>.\<close>

datatype outcome = Rejected string | Resolved "string option"

text \<open>
  What the event loop can deliver to the component: typing in the two inputs, a
  submission of the form, a tick of an interval with the value \<^verbatim>\<open>Math.random()\<close> returns
  in it, the settling of a call, a timeout coming due, and the passing of time.
\<close>

datatype event =
    SetPhoneNumber string
  | SetManualKey string
  | Submit
  | Tick nat real
  | Response nat outcome
  | Fire nat
  | Advance nat

section \<open>The handlers\<close>

subsection \<open>The progress timer\<close>

text \<open>
  The callback of \<^verbatim>\<open>setInterval\<close> (lines 150-158 and 546-554), with \<open>r\<close> the value of
  \<^verbatim>\<open>Math.random()\<close>. The two revisions differ in the factor (10 and 15) and in the
  period (300 and 400 ms). \<^verbatim>\<open>scanProgress\<close> is a JavaScript number; the model computes
  with exact reals.
\<close>

definition increment :: "variant \<Rightarrow> real" where
  "increment v = (case v of V2 \<Rightarrow> 10 | V3 \<Rightarrow> 15)"

definition tick :: "variant \<Rightarrow> nat \<Rightarrow> real \<Rightarrow> app \<Rightarrow> app" where
  "tick v interval r s =
     (if scanProgress s \<ge> 100
      then s\<lparr>intervals := removeAll interval (intervals s), scanProgress := 100\<rparr>
      else s\<lparr>scanProgress := scanProgress s + r * increment v\<rparr>)"

subsection \<open>\<^verbatim>\<open>startScan\<close>\<close>

text \<open>The \<^verbatim>\<open>catch\<close> block of \<^verbatim>\<open>startScan\<close> (lines 232-236 and 588-592), \<open>m\<close> being
  \<^verbatim>\<open>err.message\<close>: only \<open>V2\<close> shows it.\<close>

definition scan_failed :: "variant \<Rightarrow> string \<Rightarrow> app \<Rightarrow> app" where
  "scan_failed v m s =
     s\<lparr>error := Some (case v of
                       V2 \<Rightarrow> or_else (Some m) ''Gagal mendapatkan laporan intelijen.''
                     | V3 \<Rightarrow> ''Gagal mendapatkan laporan intelijen.''),
       isScanning := False\<rparr>"

text \<open>The delay given to \<^verbatim>\<open>setTimeout\<close> (lines 230 and 586), in milliseconds.\<close>

definition pause :: "variant \<Rightarrow> nat" where
  "pause v = (case v of V2 \<Rightarrow> 1500 | V3 \<Rightarrow> 2000)"

text \<open>
  What \<^verbatim>\<open>startScan\<close> does once a call has resolved (lines 224-230 and 579-586):
  \<^verbatim>\<open>JSON.parse(response.text || '{}')\<close>, whose exception goes to the \<^verbatim>\<open>catch\<close> block, then
  \<^verbatim>\<open>setTimeout\<close> with the parsed value in the closure.
\<close>

definition after_response :: "variant \<Rightarrow> env \<Rightarrow> nat \<Rightarrow> string option \<Rightarrow> app \<Rightarrow> app" where
  "after_response v e ss text s =
     (case JSON_parse e (or_else text ''{}'') of
        Inl m \<Rightarrow> scan_failed v m s
      | Inr res \<Rightarrow>
          s\<lparr>timeouts := timeouts s @
               [\<lparr>tid = next_id s, due = now s + pause v, result = res, tmo_session = ss\<rparr>],
            next_id := Suc (next_id s)\<rparr>)"

text \<open>The callback of \<^verbatim>\<open>setTimeout\<close> (lines 226-230 and 582-586).\<close>

definition fire :: "timeout \<Rightarrow> app \<Rightarrow> app" where
  "fire t s = s\<lparr>report := result t, isScanning := False, scanProgress := 100\<rparr>"

text \<open>A call of \<^verbatim>\<open>genAI.models.generateContent\<close>: it goes out (the log grows) and
  \<^verbatim>\<open>startScan\<close> is suspended on it.\<close>

definition generateContent :: "string \<Rightarrow> string \<Rightarrow> stage \<Rightarrow> phone \<Rightarrow> nat \<Rightarrow> app \<Rightarrow> app" where
  "generateContent model contents st parsed ss s =
     s\<lparr>calls := calls s @ [(model, contents)],
       requests := requests s @
         [\<lparr>rid = next_id s, stage = st, subject = parsed, req_session = ss\<rparr>],
       next_id := Suc (next_id s)\<rparr>"

text \<open>The key \<open>V2\<close> resolves (lines 162-167) and its test (line 169).\<close>

definition apiKey :: "env \<Rightarrow> app \<Rightarrow> string option" where
  "apiKey e s =
     or_js (or_js (or_js (or_js (Some (manualKey s)) (GEMINI_API_KEY e)) (USER_API_KEY e))
       (API_KEY e)) (VITE_GEMINI_API_KEY e)"

definition key_missing :: "string option \<Rightarrow> bool" where
  "key_missing k = (\<not> truthy k \<or> k = Some ''MY_GEMINI_API_KEY'' \<or> k = Some [])"

definition missing_key_message :: string where
  "missing_key_message =
     ''API Key tidak terdeteksi secara otomatis. Silakan masukkan secara manual di bawah.''"

text \<open>The part of \<^verbatim>\<open>startScan\<close> that both revisions run first (lines 146-158 and
  542-554): the interval is set before the \<^verbatim>\<open>try\<close> block.\<close>

definition begin_scan :: "app \<Rightarrow> app" where
  "begin_scan s =
     s\<lparr>isScanning := True, scanProgress := 0, intervals := intervals s @ [next_id s],
       next_id := Suc (next_id s)\<rparr>"

text \<open>\<^verbatim>\<open>startScan\<close> of \<open>V2\<close> up to its first \<^verbatim>\<open>await\<close> (lines 145-198).\<close>

definition startScan_v2 :: "env \<Rightarrow> phone \<Rightarrow> app \<Rightarrow> app" where
  "startScan_v2 e parsed s =
     (let s1 = begin_scan s in
      if key_missing (apiKey e s1)
      then scan_failed V2 missing_key_message (s1\<lparr>showKeyInput := True\<rparr>)
      else generateContent ''gemini-3-flash-preview'' (flash_contents parsed) Primary parsed
             (session s1) s1)"

text \<open>\<^verbatim>\<open>startScan\<close> of \<open>V3\<close> up to its \<^verbatim>\<open>await\<close> (lines 541-577).\<close>

definition startScan_v3 :: "phone \<Rightarrow> app \<Rightarrow> app" where
  "startScan_v3 parsed s =
     (let s1 = begin_scan s in
      generateContent ''gemini-3.1-pro-preview'' (contents_v3 parsed) Primary parsed
        (session s1) s1)"

text \<open>
  \<^verbatim>\<open>startScan\<close> resumed when the call it awaits settles. In \<open>V2\<close> the first call sits in a
  \<^verbatim>\<open>try\<close> of its own, whose handler sends the second call (lines 199-222); every other
  rejection reaches the \<^verbatim>\<open>catch\<close> block.
\<close>

definition resume :: "variant \<Rightarrow> env \<Rightarrow> request \<Rightarrow> outcome \<Rightarrow> app \<Rightarrow> app" where
  "resume v e q out s =
     (case out of
        Resolved text \<Rightarrow> after_response v e (req_session q) text s
      | Rejected m \<Rightarrow>
          if v = V2 \<and> stage q = Primary
          then generateContent ''gemini-3.1-pro-preview'' (pro_contents (subject q)) Fallback
                 (subject q) (req_session q) s
          else scan_failed v m s)"

subsection \<open>\<^verbatim>\<open>handleSearch\<close>\<close>

text \<open>The three \<^verbatim>\<open>set...(null)\<close> both revisions start with (lines 128-130 and 524-526);
  the ghost counter of submissions moves here.\<close>

definition clear :: "app \<Rightarrow> app" where
  "clear s = s\<lparr>error := None, report := JNull, parsedData := None, session := Suc (session s)\<rparr>"

definition invalid_v2 :: string where
  "invalid_v2 =
     ''Nomor telepon tidak valid. Pastikan gunakan format internasional (misal: +62...).''"

definition invalid_v3 :: string where
  "invalid_v3 = ''Nomor telepon tidak valid.''"

text \<open>The \<^verbatim>\<open>catch\<close> block of \<^verbatim>\<open>handleSearch\<close> (lines 140-142 and 536-538).\<close>

definition search_failed :: "string \<Rightarrow> app \<Rightarrow> app" where
  "search_failed m s = s\<lparr>error := Some (or_else (Some m) ''Gagal memproses nomor.'')\<rparr>"

definition handleSearch_v2 :: "env \<Rightarrow> app \<Rightarrow> app" where
  "handleSearch_v2 e s =
     (let s1 = clear s in
      case parsePhoneNumberWithError e (phoneNumber s1) of
        Inl m \<Rightarrow> search_failed m s1
      | Inr parsed \<Rightarrow>
          if \<not> isValid parsed then search_failed invalid_v2 s1
          else startScan_v2 e parsed (s1\<lparr>parsedData := Some parsed\<rparr>))"

definition handleSearch_v3 :: "env \<Rightarrow> app \<Rightarrow> app" where
  "handleSearch_v3 e s =
     (let s1 = clear s in
      case parsePhoneNumberWithError e (phoneNumber s1) of
        Inl m \<Rightarrow> search_failed m s1
      | Inr parsed \<Rightarrow>
          if \<not> isValid parsed then search_failed invalid_v3 s1
          else startScan_v3 parsed (s1\<lparr>parsedData := Some parsed\<rparr>))"

definition handleSearch :: "variant \<Rightarrow> env \<Rightarrow> app \<Rightarrow> app" where
  "handleSearch v e s = (case v of V2 \<Rightarrow> handleSearch_v2 e s | V3 \<Rightarrow> handleSearch_v3 e s)"

section \<open>The render\<close>

text \<open>
  The right column of the page (lines 360-447 and 689-827) shows the progress while
  \<^verbatim>\<open>isScanning\<close> holds, else the report when \<^verbatim>\<open>report\<close> is truthy, else a placeholder. Only
  the view of the report reads into a value that comes from outside.
\<close>

definition js_truthy :: "json \<Rightarrow> bool" where
  "js_truthy j =
     (case j of JNull \<Rightarrow> False | JBool b \<Rightarrow> b | JNum n \<Rightarrow> n \<noteq> 0 | JStr x \<Rightarrow> x \<noteq> []
      | JArr xs \<Rightarrow> True | JObj ms \<Rightarrow> True)"

text \<open>
  \<^verbatim>\<open>report.name\<close> for the four names the view reads (\<^verbatim>\<open>securityRisk\<close>, \<^verbatim>\<open>regionDetails\<close>,
  \<^verbatim>\<open>carrierInfo\<close>, \<^verbatim>\<open>recommendations\<close>): the member of an object, and \<^verbatim>\<open>undefined\<close> on an
  object without it, on an array, a string, a number and a boolean.
\<close>

definition property :: "string \<Rightarrow> json \<Rightarrow> json option" where
  "property k j = (case j of JObj ms \<Rightarrow> map_of ms k | _ \<Rightarrow> None)"

text \<open>
  What React accepts as a child in \<^verbatim>\<open>{value}\<close>: strings and numbers are text, \<^verbatim>\<open>null\<close>,
  \<^verbatim>\<open>undefined\<close> and booleans show nothing, an array is the sequence of its elements, and
  on an object React throws.
\<close>

fun valid_child :: "json \<Rightarrow> bool" where
  "valid_child (JObj ms) = False"
| "valid_child (JArr xs) = list_all valid_child xs"
| "valid_child j = True"

definition child_ok :: "json option \<Rightarrow> bool" where
  "child_ok c = (case c of None \<Rightarrow> True | Some j \<Rightarrow> valid_child j)"

text \<open>
  The view of the report (lines 386-436 and 745-813). \<^verbatim>\<open>report.recommendations.map\<close>
  (lines 427 and 801) throws a \<^verbatim>\<open>TypeError\<close> unless \<^verbatim>\<open>report.recommendations\<close> is an array;
  its elements, \<^verbatim>\<open>report.securityRisk\<close> (through \<^verbatim>\<open>ResultCard\<close>), \<^verbatim>\<open>report.regionDetails\<close> and
  \<^verbatim>\<open>report.carrierInfo\<close> are rendered as children.
\<close>

definition result_view_throws :: "json \<Rightarrow> bool" where
  "result_view_throws r =
     (case property ''recommendations'' r of
        Some (JArr recs) \<Rightarrow>
          \<not> (list_all valid_child recs \<and> child_ok (property ''securityRisk'' r) \<and>
             child_ok (property ''regionDetails'' r) \<and> child_ok (property ''carrierInfo'' r))
      | _ \<Rightarrow> True)"

definition render_throws :: "app \<Rightarrow> bool" where
  "render_throws s = (\<not> isScanning s \<and> js_truthy (report s) \<and> result_view_throws (report s))"

section \<open>The event loop\<close>

text \<open>
  One event, delivered to a mounted component. The guards are the component's and the
  platform's:
  \<^item> the key input is rendered only by \<open>V2\<close> and only while \<^verbatim>\<open>showKeyInput\<close> holds
    (line 310);
  \<^item> the submit button is \<^verbatim>\<open>disabled={isScanning || !phoneNumber}\<close> (lines 293 and 643), and
    a form whose submit button is disabled is submitted neither by a click nor by the
    Enter key;
  \<^item> an interval that has been cleared does not tick, and \<^verbatim>\<open>Math.random()\<close> is at least 0
    and less than 1;
  \<^item> a promise settles once;
  \<^item> a timeout runs once, and not before its delay has passed.
\<close>

fun deliver :: "variant \<Rightarrow> env \<Rightarrow> app \<Rightarrow> event \<Rightarrow> app" where
  "deliver v e s (SetPhoneNumber x) = s\<lparr>phoneNumber := x\<rparr>"
| "deliver v e s (SetManualKey x) = (if v = V2 \<and> showKeyInput s then s\<lparr>manualKey := x\<rparr> else s)"
| "deliver v e s Submit = (if isScanning s \<or> phoneNumber s = [] then s else handleSearch v e s)"
| "deliver v e s (Tick i r) =
     (if i \<in> set (intervals s) \<and> 0 \<le> r \<and> r < 1 then tick v i r s else s)"
| "deliver v e s (Response i out) =
     (case find (\<lambda>q. rid q = i) (requests s) of
        None \<Rightarrow> s
      | Some q \<Rightarrow> resume v e q out (s\<lparr>requests := filter (\<lambda>q. rid q \<noteq> i) (requests s)\<rparr>))"
| "deliver v e s (Fire i) =
     (case find (\<lambda>t. tid t = i \<and> due t \<le> now s) (timeouts s) of
        None \<Rightarrow> s
      | Some t \<Rightarrow> fire t (s\<lparr>timeouts := filter (\<lambda>t. tid t \<noteq> i) (timeouts s)\<rparr>))"
| "deliver v e s (Advance d) = s\<lparr>now := now s + d\<rparr>"

text \<open>
  After the handler React renders the component. The file has no error boundary, so a
  render that throws makes React unmount the component: the form is gone, and updates of
  an unmounted component are dropped, so no later event changes its state.
\<close>

definition step :: "variant \<Rightarrow> env \<Rightarrow> app \<Rightarrow> event \<Rightarrow> app" where
  "step v e s x =
     (if unmounted s then s
      else (deliver v e s x)\<lparr>unmounted := render_throws (deliver v e s x)\<rparr>)"

fun run :: "variant \<Rightarrow> env \<Rightarrow> app \<Rightarrow> event list \<Rightarrow> app" where
  "run v e s [] = s"
| "run v e s (x # xs) = run v e (step v e s x) xs"

section \<open>A concrete environment\<close>

text \<open>
  The theorems below hold for every environment. Where one is evaluated at an input, the
  libraries are these two. \<open>JSON_parse_text\<close> reads the JSON texts built from objects,
  arrays, strings without escape sequences, integers, \<^verbatim>\<open>true\<close>, \<^verbatim>\<open>false\<close> and \<^verbatim>\<open>null\<close>, with
  white space between the tokens, as \<^verbatim>\<open>JSON.parse\<close> does; it is used on such texts and on
  texts that are not JSON at all. Of a key written twice the last value is kept, in the
  place of the first.
\<close>

definition is_ws :: "char \<Rightarrow> bool" where
  "is_ws c = (c = CHR 0x20 \<or> c = CHR 0x09 \<or> c = CHR 0x0A \<or> c = CHR 0x0D)"

definition skip_ws :: "string \<Rightarrow> string" where
  "skip_ws cs = dropWhile is_ws cs"

definition is_digit :: "char \<Rightarrow> bool" where
  "is_digit c = (48 \<le> (of_char c :: nat) \<and> (of_char c :: nat) \<le> 57)"

definition digits_value :: "string \<Rightarrow> int" where
  "digits_value ds = foldl (\<lambda>a c. 10 * a + (int (of_char c) - 48)) 0 ds"

definition lex_digits :: "string \<Rightarrow> (int \<times> string) option" where
  "lex_digits cs =
     (let ds = takeWhile is_digit cs in
      if ds = [] \<or> (1 < length ds \<and> hd ds = CHR ''0'') then None
      else Some (digits_value ds, dropWhile is_digit cs))"

definition lex_number :: "string \<Rightarrow> (json \<times> string) option" where
  "lex_number cs =
     (case cs of
        [] \<Rightarrow> None
      | c # r \<Rightarrow>
          if c = CHR ''-'' then map_option (\<lambda>(n, r'). (JNum (- n), r')) (lex_digits r)
          else map_option (\<lambda>(n, r'). (JNum n, r')) (lex_digits cs))"

text \<open>The characters of a string up to its closing quote; a backslash or a control
  character ends the reading with a failure.\<close>

fun lex_string :: "string \<Rightarrow> (string \<times> string) option" where
  "lex_string [] = None"
| "lex_string (c # cs) =
     (if c = CHR 0x22 then Some ([], cs)
      else if c = CHR 0x5C \<or> (of_char c :: nat) < 32 then None
      else map_option (\<lambda>(x, r). (c # x, r)) (lex_string cs))"

definition lex_word :: "string \<Rightarrow> json \<Rightarrow> string \<Rightarrow> (json \<times> string) option" where
  "lex_word w j cs = (if take (length w) cs = w then Some (j, drop (length w) cs) else None)"

definition add_member :: "string \<Rightarrow> json \<Rightarrow> (string \<times> json) list \<Rightarrow> (string \<times> json) list" where
  "add_member k x ms =
     (k, case map_of ms k of None \<Rightarrow> x | Some y \<Rightarrow> y) # filter (\<lambda>m. fst m \<noteq> k) ms"

text \<open>Recursive descent; the first argument bounds the number of nested calls, and the
  length of the text is enough.\<close>

fun parse_value :: "nat \<Rightarrow> string \<Rightarrow> (json \<times> string) option"
  and parse_elements :: "nat \<Rightarrow> string \<Rightarrow> (json list \<times> string) option"
  and parse_members :: "nat \<Rightarrow> string \<Rightarrow> ((string \<times> json) list \<times> string) option"
where
  "parse_value 0 cs = None"
| "parse_value (Suc n) cs =
     (case skip_ws cs of
        [] \<Rightarrow> None
      | c # r \<Rightarrow>
          if c = CHR 0x7B then
            (case skip_ws r of
               [] \<Rightarrow> None
             | d # r' \<Rightarrow>
                 if d = CHR 0x7D then Some (JObj [], r')
                 else map_option (\<lambda>(ms, r''). (JObj ms, r'')) (parse_members n (d # r')))
          else if c = CHR 0x5B then
            (case skip_ws r of
               [] \<Rightarrow> None
             | d # r' \<Rightarrow>
                 if d = CHR 0x5D then Some (JArr [], r')
                 else map_option (\<lambda>(xs, r''). (JArr xs, r'')) (parse_elements n (d # r')))
          else if c = CHR 0x22 then map_option (\<lambda>(x, r'). (JStr x, r')) (lex_string r)
          else if c = CHR ''t'' then lex_word ''true'' (JBool True) (c # r)
          else if c = CHR ''f'' then lex_word ''false'' (JBool False) (c # r)
          else if c = CHR ''n'' then lex_word ''null'' JNull (c # r)
          else lex_number (c # r))"
| "parse_elements 0 cs = None"
| "parse_elements (Suc n) cs =
     (case parse_value n cs of
        None \<Rightarrow> None
      | Some (x, r) \<Rightarrow>
          (case skip_ws r of
             [] \<Rightarrow> None
           | d # r' \<Rightarrow>
               if d = CHR 0x5D then Some ([x], r')
               else if d = CHR 0x2C
               then map_option (\<lambda>(xs, r''). (x # xs, r'')) (parse_elements n r')
               else None))"
| "parse_members 0 cs = None"
| "parse_members (Suc n) cs =
     (case skip_ws cs of
        [] \<Rightarrow> None
      | q # r \<Rightarrow>
          if q \<noteq> CHR 0x22 then None
          else
            (case lex_string r of
               None \<Rightarrow> None
             | Some (k, r1) \<Rightarrow>
                 (case skip_ws r1 of
                    [] \<Rightarrow> None
                  | colon # r2 \<Rightarrow>
                      if colon \<noteq> CHR 0x3A then None
                      else
                        (case parse_value n r2 of
                           None \<Rightarrow> None
                         | Some (x, r3) \<Rightarrow>
                             (case skip_ws r3 of
                                [] \<Rightarrow> None
                              | d # r4 \<Rightarrow>
                                  if d = CHR 0x7D then Some ([(k, x)], r4)
                                  else if d = CHR 0x2C
                                  then map_option (\<lambda>(ms, r5). (add_member k x ms, r5))
                                         (parse_members n r4)
                                  else None)))))"

definition JSON_parse_text :: "string \<Rightarrow> string + json" where
  "JSON_parse_text cs =
     (case parse_value (Suc (length cs)) cs of
        None \<Rightarrow> Inl ''Unexpected token in JSON''
      | Some (j, r) \<Rightarrow> if skip_ws r = [] then Inr j else Inl ''Unexpected token in JSON'')"

text \<open>
  A stand-in for the phone number library with two answers: the Indonesian mobile number
  \<^verbatim>\<open>+6281234567890\<close> is valid, the same number cut to \<^verbatim>\<open>+62812\<close> parses and is not valid, and
  any other text makes the library throw \<^verbatim>\<open>NOT_A_NUMBER\<close>.
\<close>

definition sample_phone :: phone where
  "sample_phone =
     \<lparr>number = ''+6281234567890'', country = Some ''ID'', carrier = None,
      getType = Some ''MOBILE'', isValid = True\<rparr>"

definition sample_library :: "string \<Rightarrow> string + phone" where
  "sample_library x =
     (if x = ''+6281234567890'' then Inr sample_phone
      else if x = ''+62812''
      then Inr \<lparr>number = ''+62812'', country = Some ''ID'', carrier = None,
                getType = None, isValid = False\<rparr>
      else Inl ''NOT_A_NUMBER'')"

text \<open>An environment with these libraries and the given value of
  \<^verbatim>\<open>process.env.GEMINI_API_KEY\<close>, the other three sources being absent.\<close>

definition sample_env :: "string option \<Rightarrow> env" where
  "sample_env k =
     \<lparr>parsePhoneNumberWithError = sample_library, JSON_parse = JSON_parse_text,
      GEMINI_API_KEY = k, USER_API_KEY = None, API_KEY = None, VITE_GEMINI_API_KEY = None\<rparr>"

text \<open>The fields an \<^verbatim>\<open>IntelReport\<close> must have (lines 506-512).\<close>

definition has_field :: "string \<Rightarrow> json \<Rightarrow> bool" where
  "has_field k j = (case j of JObj ms \<Rightarrow> k \<in> fst ` set ms | _ \<Rightarrow> False)"

definition has_required_fields :: "json \<Rightarrow> bool" where
  "has_required_fields j =
     (has_field ''summary'' j \<and> has_field ''regionDetails'' j \<and> has_field ''carrierInfo'' j \<and>
      has_field ''securityRisk'' j \<and> has_field ''recommendations'' j)"

section \<open>Notions the properties are stated with\<close>

text \<open>
  At most one call or timeout is pending, only while \<^verbatim>\<open>isScanning\<close> holds, and it was
  started by the latest submission.
\<close>

definition single_session :: "app \<Rightarrow> bool" where
  "single_session s =
     (length (requests s) + length (timeouts s) \<le> 1 \<and>
      (requests s \<noteq> [] \<or> timeouts s \<noteq> [] \<longrightarrow> isScanning s) \<and>
      (\<forall>q \<in> set (requests s). req_session q = session s) \<and>
      (\<forall>t \<in> set (timeouts s). tmo_session t = session s))"

text \<open>An error or a report is on the screen only when no scan is running, and a report
  only with the progress at 100.\<close>

definition settled :: "app \<Rightarrow> bool" where
  "settled s =
     ((error s \<noteq> None \<longrightarrow> \<not> isScanning s) \<and>
      (report s \<noteq> JNull \<longrightarrow> \<not> isScanning s \<and> scanProgress s = 100))"

text \<open>The form is on the page and its button is enabled as soon as the phone field is
  not empty.\<close>

definition form_usable :: "app \<Rightarrow> bool" where
  "form_usable s = (\<not> unmounted s \<and> \<not> isScanning s)"

text \<open>The component is unmounted exactly when its state is one whose render throws.\<close>

definition rendered :: "app \<Rightarrow> bool" where
  "rendered s = (unmounted s = render_throws s)"

text \<open>
  What the \<^verbatim>\<open>try\<close> block of \<^verbatim>\<open>handleSearch\<close> throws on an input (lines 133-136 and
  529-532): the library's own error, or the component's when \<^verbatim>\<open>isValid()\<close> is false.
\<close>

definition validation_error :: "variant \<Rightarrow> env \<Rightarrow> string \<Rightarrow> string option" where
  "validation_error v e x =
     (case parsePhoneNumberWithError e x of
        Inl m \<Rightarrow> Some m
      | Inr parsed \<Rightarrow>
          if isValid parsed then None
          else Some (case v of V2 \<Rightarrow> invalid_v2 | V3 \<Rightarrow> invalid_v3))"

text \<open>A source of the key that holds nothing the test of line 169 accepts.\<close>

definition unusable :: "string option \<Rightarrow> bool" where
  "unusable k = (\<not> truthy k \<or> k = Some ''MY_GEMINI_API_KEY'')"

text \<open>The environment with no key configured in any of the four places.\<close>

definition without_keys :: "env \<Rightarrow> env" where
  "without_keys e =
     e\<lparr>GEMINI_API_KEY := None, USER_API_KEY := None, API_KEY := None,
       VITE_GEMINI_API_KEY := None\<rparr>"



subsection \<open>Runs used as examples\<close>

definition sample_number :: string where
  "sample_number = ''+6281234567890''"

definition sample_text :: string where
  \<open>sample_text =
     ''{"summary":"x","regionDetails":"y","carrierInfo":"z","securityRisk":"Low","recommendations":["a","b","c"]}''\<close>

definition sample_report :: json where
  "sample_report =
     JObj [(''summary'', JStr ''x''), (''regionDetails'', JStr ''y''),
           (''carrierInfo'', JStr ''z''), (''securityRisk'', JStr ''Low''),
           (''recommendations'', JArr [JStr ''a'', JStr ''b'', JStr ''c''])]"

text \<open>A scan of \<open>V3\<close> is started: the interval has handle 0 and the call handle 1.\<close>

definition scanning_v3 :: app where
  "scanning_v3 = run V3 (sample_env None) init [SetPhoneNumber sample_number, Submit]"


text \<open>The call of the scan resolves with no text; two seconds later the timeout runs.\<close>

definition empty_answer_v3 :: app where
  "empty_answer_v3 =
     run V3 (sample_env None) scanning_v3 [Response 1 (Resolved None), Advance 2000, Fire 2]"

text \<open>The call resolves with the sample report; two seconds later the timeout runs.\<close>

definition answered_v3 :: app where
  "answered_v3 =
     run V3 (sample_env None) init
       [SetPhoneNumber sample_number, Submit, Response 1 (Resolved (Some sample_text)),
        Advance 2000, Fire 2]"

text \<open>The same run, stopped when the timeout is due and has not run yet.\<close>

definition answer_due_v3 :: app where
  "answer_due_v3 =
     run V3 (sample_env None) init
       [SetPhoneNumber sample_number, Submit, Response 1 (Resolved (Some sample_text)),
        Advance 2000]"

text \<open>The call resolves with a report that has no \<^verbatim>\<open>recommendations\<close>; two seconds later
  the timeout runs.\<close>

definition partial_text :: string where
  \<open>partial_text = ''{"summary":"x","securityRisk":"Low"}''\<close>

definition partial_report :: json where
  "partial_report = JObj [(''summary'', JStr ''x''), (''securityRisk'', JStr ''Low'')]"

definition partial_answer_v3 :: app where
  "partial_answer_v3 =
     run V3 (sample_env None) scanning_v3
       [Response 1 (Resolved (Some partial_text)), Advance 2000, Fire 2]"

text \<open>The call of the scan is rejected.\<close>

definition failed_v3 :: app where
  "failed_v3 = run V3 (sample_env None) scanning_v3 [Response 1 (Rejected ''quota exceeded'')]"


text \<open>
  The interval ticks every 400 ms with \<^verbatim>\<open>Math.random()\<close> at one half; the call resolves
  after 900 ms with the sample report, and the run stops at 2900 ms, when the timeout is
  due.
\<close>

definition early_answer :: "event list" where
  "early_answer =
     [Advance 400, Tick 0 (1/2), Advance 400, Tick 0 (1/2), Advance 100,
      Response 1 (Resolved (Some sample_text)),
      Advance 300, Tick 0 (1/2), Advance 400, Tick 0 (1/2), Advance 400, Tick 0 (1/2),
      Advance 400, Tick 0 (1/2), Advance 400, Tick 0 (1/2), Advance 100]"

text \<open>The scan of \<open>V3\<close> after \<open>n\<close> ticks of its interval, \<^verbatim>\<open>Math.random()\<close> being one
  half in each, while the call is still pending.\<close>

definition ticking :: "nat \<Rightarrow> app" where
  "ticking n = run V3 (sample_env None) scanning_v3 (replicate n (Tick 0 (1/2)))"






section \<open>Invariants of the event loop\<close>

lemmas handler_defs = tick_def scan_failed_def after_response_def fire_def generateContent_def
  begin_scan_def startScan_v2_def startScan_v3_def resume_def clear_def search_failed_def
  handleSearch_v2_def handleSearch_v3_def handleSearch_def

lemmas render_defs = render_throws_def js_truthy_def result_view_throws_def property_def
  child_ok_def

lemmas sample_defs = sample_env_def sample_library_def sample_number_def sample_phone_def
  init_def

lemmas eval_defs = sample_defs handler_defs step_def render_defs Let_def or_else_def pause_def
  increment_def

lemma step_unmounted: "unmounted s \<Longrightarrow> step v e s x = s"
  by (simp add: step_def)

lemma step_mounted:
  "\<not> unmounted s \<Longrightarrow>
   step v e s x = (deliver v e s x)\<lparr>unmounted := render_throws (deliver v e s x)\<rparr>"
  by (simp add: step_def)

lemma unmounted_deliver: "unmounted (deliver v e s x) = unmounted s"
  by (cases x; cases v)
    (auto simp: handler_defs Let_def split: sum.splits option.splits outcome.splits)

lemma render_throws_scanning: "isScanning s \<Longrightarrow> \<not> render_throws s"
  by (simp add: render_throws_def)

lemma render_throws_no_report: "report s = JNull \<Longrightarrow> \<not> render_throws s"
  by (simp add: render_throws_def js_truthy_def)

lemma single_session_init: "single_session init"
  by (simp add: single_session_def init_def)

lemma find_single: "find P xs = Some x \<Longrightarrow> length xs \<le> 1 \<Longrightarrow> xs = [x] \<and> P x"
  by (cases xs) (auto split: if_splits)

lemma single_session_deliver: "single_session s \<Longrightarrow> single_session (deliver v e s x)"
proof (cases x)
  case Submit
  assume "single_session s"
  then show ?thesis using Submit
    by (cases v) (auto simp: single_session_def handler_defs Let_def split: sum.splits)
next
  case (Response i out)
  assume a: "single_session s"
  show ?thesis
  proof (cases "find (\<lambda>q. rid q = i) (requests s)")
    case None
    then show ?thesis using a Response by simp
  next
    case (Some q)
    from a have "length (requests s) \<le> 1" by (simp add: single_session_def)
    with Some have "requests s = [q] \<and> rid q = i" by (rule find_single)
    then show ?thesis using a Some Response
      by (cases out) (auto simp: single_session_def handler_defs split: sum.splits)
  qed
next
  case (Fire i)
  assume a: "single_session s"
  show ?thesis
  proof (cases "find (\<lambda>t. tid t = i \<and> due t \<le> now s) (timeouts s)")
    case None
    then show ?thesis using a Fire by simp
  next
    case (Some t)
    from a have "length (timeouts s) \<le> 1" by (simp add: single_session_def)
    with Some have "timeouts s = [t] \<and> (tid t = i \<and> due t \<le> now s)" by (rule find_single)
    then show ?thesis using a Some Fire
      by (auto simp: single_session_def handler_defs)
  qed
qed (auto simp: single_session_def handler_defs)

lemma single_session_step: "single_session s \<Longrightarrow> single_session (step v e s x)"
  using single_session_deliver [of s v e x] by (simp add: step_def single_session_def)

lemma single_session_run: "single_session s \<Longrightarrow> single_session (run v e s xs)"
  by (induction xs arbitrary: s) (simp_all add: single_session_step)

lemma single_session_reachable: "single_session (run v e init xs)"
  by (rule single_session_run) (rule single_session_init)

lemma settled_init: "settled init"
  by (simp add: settled_def init_def)

lemma settled_deliver: "settled s \<Longrightarrow> settled (deliver v e s x)"
  by (cases x; cases v)
    (auto simp: settled_def handler_defs Let_def split: sum.splits option.splits outcome.splits)

lemma settled_step: "settled s \<Longrightarrow> settled (step v e s x)"
  using settled_deliver [of s v e x] by (simp add: step_def settled_def)

lemma settled_run: "settled s \<Longrightarrow> settled (run v e s xs)"
  by (induction xs arbitrary: s) (simp_all add: settled_step)

lemma settled_reachable: "settled (run v e init xs)"
  by (rule settled_run) (rule settled_init)

lemma rendered_init: "rendered init"
  by (simp add: rendered_def init_def render_throws_def js_truthy_def)

lemma rendered_step: "rendered s \<Longrightarrow> rendered (step v e s x)"
  by (simp add: step_def rendered_def render_throws_def)

lemma rendered_run: "rendered s \<Longrightarrow> rendered (run v e s xs)"
  by (induction xs arbitrary: s) (simp_all add: rendered_step)

lemma rendered_reachable: "rendered (run v e init xs)"
  by (rule rendered_run) (rule rendered_init)

lemma mounted_while_scanning:
  assumes "s = run v e init xs" and "isScanning s"
  shows "\<not> unmounted s"
proof -
  have "rendered s" unfolding assms(1) by (rule rendered_reachable)
  with assms(2) show ?thesis by (simp add: rendered_def render_throws_def)
qed







lemma pending_reachable:
  assumes "s = run v e init xs" and "find (\<lambda>q. rid q = i) (requests s) = Some q"
  shows "requests s = [q] \<and> rid q = i \<and> req_session q = session s \<and> timeouts s = [] \<and>
         isScanning s \<and> report s = JNull \<and> error s = None \<and> \<not> unmounted s"
proof -
  have inv: "single_session s" unfolding assms(1) by (rule single_session_reachable)
  then have "length (requests s) \<le> 1" by (simp add: single_session_def)
  with assms(2) have 1: "requests s = [q] \<and> rid q = i" by (rule find_single)
  with inv have 2: "timeouts s = [] \<and> isScanning s \<and> req_session q = session s"
    by (auto simp: single_session_def)
  have "settled s" unfolding assms(1) by (rule settled_reachable)
  with 2 have 3: "report s = JNull \<and> error s = None" by (auto simp: settled_def)
  from 2 have "\<not> unmounted s" using mounted_while_scanning [OF assms(1)] by simp
  with 1 2 3 show ?thesis by simp
qed

section \<open>The libraries and the runs at their sample inputs\<close>

lemma JSON_parse_text_empty_object: "JSON_parse_text ''{}'' = Inr (JObj [])"
  by code_simp

lemma JSON_parse_text_sample: "JSON_parse_text sample_text = Inr sample_report"
  by code_simp

lemma JSON_parse_text_partial: "JSON_parse_text partial_text = Inr partial_report"
  by code_simp


lemma sample_text_nonempty: "sample_text \<noteq> []"
  by (simp add: sample_text_def)

lemma partial_text_nonempty: "partial_text \<noteq> []"
  by (simp add: partial_text_def)


lemma scanning_v3_fields:
  "isScanning scanning_v3 \<and> scanProgress scanning_v3 = 0 \<and> intervals scanning_v3 = [0] \<and>
   requests scanning_v3 = [\<lparr>rid = 1, stage = Primary, subject = sample_phone, req_session = 1\<rparr>] \<and>
   timeouts scanning_v3 = [] \<and> session scanning_v3 = 1 \<and> next_id scanning_v3 = 2 \<and>
   now scanning_v3 = 0 \<and> error scanning_v3 = None \<and> report scanning_v3 = JNull \<and>
   \<not> unmounted scanning_v3 \<and>
   calls scanning_v3 = [(''gemini-3.1-pro-preview'', contents_v3 sample_phone)]"
  by (simp add: scanning_v3_def eval_defs)

lemma answer_due_v3_fields:
  "isScanning answer_due_v3 \<and> report answer_due_v3 = JNull \<and> session answer_due_v3 = 1 \<and>
   now answer_due_v3 = 2000 \<and> intervals answer_due_v3 = [0] \<and> \<not> unmounted answer_due_v3 \<and>
   timeouts answer_due_v3 = [\<lparr>tid = 2, due = 2000, result = sample_report, tmo_session = 1\<rparr>]"
  by (simp add: answer_due_v3_def eval_defs JSON_parse_text_sample sample_text_nonempty)

section \<open>The credential check of \<open>V2\<close>\<close>

lemma or_js_unusable: "unusable a \<Longrightarrow> unusable b \<Longrightarrow> unusable (or_js a b)"
  by (auto simp: unusable_def or_js_def)

lemma unusable_missing: "unusable k \<Longrightarrow> key_missing k"
  by (auto simp: unusable_def key_missing_def)

lemma startScan_v2_missing:
  "key_missing (apiKey e s) \<Longrightarrow>
   startScan_v2 e parsed s =
     (begin_scan s)\<lparr>showKeyInput := True, error := Some missing_key_message, isScanning := False\<rparr>"
  by (simp add: startScan_v2_def Let_def apiKey_def begin_scan_def scan_failed_def or_else_def
      missing_key_message_def)

text \<open>
  C5. When none of the five sources (the manual entry, the three variables of
  \<^verbatim>\<open>process.env\<close>, the build-time \<^verbatim>\<open>VITE_GEMINI_API_KEY\<close>) holds a usable key, \<^verbatim>\<open>startScan\<close>
  of \<open>V2\<close> fails before it returns: the missing-credential message is the error, the
  manual key field is revealed, scanning is over, and no call has gone out or is pending.
\<close>

theorem missing_credential_fails_without_call:
  assumes "unusable (Some (manualKey s))" and "unusable (GEMINI_API_KEY e)"
    and "unusable (USER_API_KEY e)" and "unusable (API_KEY e)"
    and "unusable (VITE_GEMINI_API_KEY e)"
  shows "error (startScan_v2 e parsed s) = Some missing_key_message \<and>
         showKeyInput (startScan_v2 e parsed s) \<and>
         \<not> isScanning (startScan_v2 e parsed s) \<and>
         calls (startScan_v2 e parsed s) = calls s \<and>
         requests (startScan_v2 e parsed s) = requests s \<and>
         timeouts (startScan_v2 e parsed s) = timeouts s \<and>
         report (startScan_v2 e parsed s) = report s"
proof -
  have "unusable (apiKey e s)"
    unfolding apiKey_def using assms by (intro or_js_unusable)
  then have "key_missing (apiKey e s)" by (rule unusable_missing)
  then show ?thesis by (simp add: startScan_v2_missing begin_scan_def)
qed

theorem missing_credential_fails_without_call_witness:
  "unusable (Some (manualKey init)) \<and> unusable (GEMINI_API_KEY (sample_env None)) \<and>
   unusable (USER_API_KEY (sample_env None)) \<and> unusable (API_KEY (sample_env None)) \<and>
   unusable (VITE_GEMINI_API_KEY (sample_env None)) \<and>
   error (startScan_v2 (sample_env None) sample_phone init) = Some missing_key_message \<and>
   showKeyInput (startScan_v2 (sample_env None) sample_phone init) \<and>
   \<not> isScanning (startScan_v2 (sample_env None) sample_phone init) \<and>
   calls (startScan_v2 (sample_env None) sample_phone init) = []"
  using missing_credential_fails_without_call [of init "sample_env None" sample_phone]
  by (simp add: unusable_def truthy_def init_def sample_env_def)

text \<open>
  C10. When the key that \<open>V2\<close> resolves is the placeholder \<^verbatim>\<open>MY_GEMINI_API_KEY\<close> or the
  empty string, \<^verbatim>\<open>startScan\<close> does exactly what it does with no key configured anywhere and
  none entered: the same state results (the manual key field keeping its content), with
  the missing-credential error, the manual key field revealed, and no call.
\<close>

theorem placeholder_key_is_missing:
  assumes "apiKey e s = Some ''MY_GEMINI_API_KEY'' \<or> apiKey e s = Some []"
  shows "startScan_v2 e parsed s =
           (startScan_v2 (without_keys e) parsed (s\<lparr>manualKey := []\<rparr>))
             \<lparr>manualKey := manualKey s\<rparr> \<and>
         error (startScan_v2 e parsed s) = Some missing_key_message \<and>
         showKeyInput (startScan_v2 e parsed s) \<and>
         \<not> isScanning (startScan_v2 e parsed s) \<and>
         calls (startScan_v2 e parsed s) = calls s \<and>
         requests (startScan_v2 e parsed s) = requests s"
proof -
  have a: "key_missing (apiKey e s)"
    using assms by (auto simp: key_missing_def)
  have b: "key_missing (apiKey (without_keys e) (s\<lparr>manualKey := []\<rparr>))"
    by (simp add: key_missing_def apiKey_def without_keys_def or_js_def truthy_def)
  show ?thesis
    by (simp add: startScan_v2_missing [OF a] startScan_v2_missing [OF b] begin_scan_def)
qed

theorem placeholder_key_is_missing_witness:
  "(apiKey (sample_env (Some ''MY_GEMINI_API_KEY'')) init = Some ''MY_GEMINI_API_KEY'' \<or>
    apiKey (sample_env (Some ''MY_GEMINI_API_KEY'')) init = Some []) \<and>
   error (startScan_v2 (sample_env (Some ''MY_GEMINI_API_KEY'')) sample_phone init) =
     Some missing_key_message \<and>
   showKeyInput (startScan_v2 (sample_env (Some ''MY_GEMINI_API_KEY'')) sample_phone init) \<and>
   calls (startScan_v2 (sample_env (Some ''MY_GEMINI_API_KEY'')) sample_phone init) = calls init"
proof -
  have h: "apiKey (sample_env (Some ''MY_GEMINI_API_KEY'')) init = Some ''MY_GEMINI_API_KEY'' \<or>
    apiKey (sample_env (Some ''MY_GEMINI_API_KEY'')) init = Some []"
    by (simp add: apiKey_def or_js_def truthy_def init_def sample_env_def)
  from placeholder_key_is_missing [OF h, of sample_phone] h show ?thesis by blast
qed

section \<open>Submissions\<close>

lemma handleSearch_rejected:
  "validation_error v e (phoneNumber s) = Some m \<Longrightarrow>
   handleSearch v e s =
     (clear s)\<lparr>error := Some (if m = [] then ''Gagal memproses nomor.'' else m)\<rparr>"
  by (cases v)
    (auto simp: validation_error_def handleSearch_def handleSearch_v2_def handleSearch_v3_def
      Let_def clear_def search_failed_def or_else_def invalid_v2_def invalid_v3_def
      split: sum.splits if_splits)

lemma handleSearch_forgets:
  "handleSearch v e (s\<lparr>error := a, report := b, parsedData := c\<rparr>) = handleSearch v e s"
  by (cases v)
    (simp_all add: handleSearch_def handleSearch_v2_def handleSearch_v3_def clear_def)

lemma report_handleSearch: "report (handleSearch v e s) = JNull"
  by (cases v) (auto simp: handler_defs Let_def split: sum.splits)

text \<open>
  C8. When the library throws on the input, or parses it and \<^verbatim>\<open>isValid()\<close> is false,
  \<^verbatim>\<open>handleSearch\<close> sets the error to the message thrown (the library's message as it is; the
  text \<^verbatim>\<open>Gagal memproses nomor.\<close> stands in for an empty one) and does nothing else:
  \<^verbatim>\<open>isScanning\<close> and the progress keep their values, no interval is set, no call goes out or
  is pending, no timeout is scheduled. A submission the form accepts therefore leaves
  \<^verbatim>\<open>isScanning\<close> false.
\<close>

theorem rejected_input_starts_no_scan:
  assumes "validation_error v e (phoneNumber s) = Some m"
  shows "error (handleSearch v e s) = Some (if m = [] then ''Gagal memproses nomor.'' else m) \<and>
         isScanning (handleSearch v e s) = isScanning s \<and>
         scanProgress (handleSearch v e s) = scanProgress s \<and>
         intervals (handleSearch v e s) = intervals s \<and>
         requests (handleSearch v e s) = requests s \<and>
         timeouts (handleSearch v e s) = timeouts s \<and>
         calls (handleSearch v e s) = calls s \<and>
         report (handleSearch v e s) = JNull \<and>
         (\<not> isScanning s \<longrightarrow> \<not> isScanning (step v e s Submit))"
  using assms by (simp add: handleSearch_rejected clear_def step_def)

theorem rejected_input_starts_no_scan_witness:
  "validation_error V3 (sample_env None) (phoneNumber (init\<lparr>phoneNumber := ''not a number''\<rparr>))
     = Some ''NOT_A_NUMBER'' \<and>
   error (handleSearch V3 (sample_env None) (init\<lparr>phoneNumber := ''not a number''\<rparr>))
     = Some ''NOT_A_NUMBER'' \<and>
   \<not> isScanning (step V3 (sample_env None) (init\<lparr>phoneNumber := ''not a number''\<rparr>) Submit) \<and>
   intervals (handleSearch V3 (sample_env None) (init\<lparr>phoneNumber := ''not a number''\<rparr>)) = [] \<and>
   calls (handleSearch V3 (sample_env None) (init\<lparr>phoneNumber := ''not a number''\<rparr>)) = []"
  using rejected_input_starts_no_scan
    [of V3 "sample_env None" "init\<lparr>phoneNumber := ''not a number''\<rparr>" "''NOT_A_NUMBER''"]
  by (simp add: validation_error_def sample_env_def sample_library_def init_def)

text \<open>
  The failures the component reports leave the form usable. In a state the component can
  reach: a submission the library rejects, a submission of \<open>V2\<close> without a key, the
  rejection of the last call of a scan, and an answer on which \<^verbatim>\<open>JSON.parse\<close> throws each
  set the error and leave the component mounted with no scan running; and the form then
  hands a submission to \<^verbatim>\<open>handleSearch\<close> as soon as the phone field is not empty.
\<close>

lemma reported_failures_leave_form_usable:
  assumes "s = run v e init xs"
  shows "(form_usable s \<and> phoneNumber s \<noteq> [] \<and> validation_error v e (phoneNumber s) = Some m \<longrightarrow>
            error (step v e s Submit) = Some (if m = [] then ''Gagal memproses nomor.'' else m) \<and>
            form_usable (step v e s Submit)) \<and>
         (form_usable s \<and> phoneNumber s \<noteq> [] \<and> validation_error V2 e (phoneNumber s) = None \<and>
          key_missing (apiKey e s) \<longrightarrow>
            error (step V2 e s Submit) = Some missing_key_message \<and>
            form_usable (step V2 e s Submit)) \<and>
         (find (\<lambda>q. rid q = i) (requests s) = Some q \<and> (v = V3 \<or> stage q = Fallback) \<longrightarrow>
            error (step v e s (Response i (Rejected m))) \<noteq> None \<and>
            form_usable (step v e s (Response i (Rejected m)))) \<and>
         (find (\<lambda>q. rid q = i) (requests s) = Some q \<and>
          JSON_parse e (or_else body ''{}'') = Inl m \<longrightarrow>
            error (step v e s (Response i (Resolved body))) \<noteq> None \<and>
            form_usable (step v e s (Response i (Resolved body)))) \<and>
         (form_usable s \<and> phoneNumber s \<noteq> [] \<longrightarrow> deliver v e s Submit = handleSearch v e s)"
proof -
  have st: "settled s" unfolding assms by (rule settled_reachable)
  have 1: "error (step v e s Submit) = Some (if m = [] then ''Gagal memproses nomor.'' else m) \<and>
            form_usable (step v e s Submit)"
    if "form_usable s" "phoneNumber s \<noteq> []" "validation_error v e (phoneNumber s) = Some m"
    using that
    by (simp add: form_usable_def step_def handleSearch_rejected clear_def
        render_throws_no_report)
  have 2: "error (step V2 e s Submit) = Some missing_key_message \<and>
            form_usable (step V2 e s Submit)"
    if "form_usable s" "phoneNumber s \<noteq> []" "validation_error V2 e (phoneNumber s) = None"
      "key_missing (apiKey e s)"
  proof -
    from that(3) obtain parsed where p: "parsePhoneNumberWithError e (phoneNumber s) = Inr parsed"
      "isValid parsed"
      by (auto simp: validation_error_def split: sum.splits if_splits)
    have k: "key_missing (apiKey e (clear s\<lparr>parsedData := Some parsed\<rparr>))"
      using that(4) by (simp add: apiKey_def clear_def)
    have c: "phoneNumber (clear s) = phoneNumber s" by (simp add: clear_def)
    have "deliver V2 e s Submit =
        (begin_scan (clear s\<lparr>parsedData := Some parsed\<rparr>))
          \<lparr>showKeyInput := True, error := Some missing_key_message, isScanning := False\<rparr>"
      using that(1,2) p
      by (simp add: form_usable_def handleSearch_def handleSearch_v2_def Let_def c
          startScan_v2_missing [OF k])
    then show ?thesis
      using that(1)
      by (simp add: form_usable_def step_def begin_scan_def clear_def render_throws_no_report)
  qed
  have 3: "error (step v e s (Response i (Rejected m))) \<noteq> None \<and>
            form_usable (step v e s (Response i (Rejected m)))"
    if "find (\<lambda>q. rid q = i) (requests s) = Some q" "v = V3 \<or> stage q = Fallback"
    using pending_reachable [OF assms that(1)] that
    by (auto simp: form_usable_def step_def resume_def scan_failed_def render_throws_no_report)
  have 4: "error (step v e s (Response i (Resolved body))) \<noteq> None \<and>
            form_usable (step v e s (Response i (Resolved body)))"
    if "find (\<lambda>q. rid q = i) (requests s) = Some q" "JSON_parse e (or_else body ''{}'') = Inl m"
    using pending_reachable [OF assms that(1)] that
    by (auto simp: form_usable_def step_def resume_def after_response_def scan_failed_def
        render_throws_no_report)
  have 5: "form_usable s \<and> phoneNumber s \<noteq> [] \<longrightarrow> deliver v e s Submit = handleSearch v e s"
    by (simp add: form_usable_def)
  from 1 2 3 4 5 show ?thesis by blast
qed

text \<open>
  C9, at a failing input. The call of a scan of \<open>V3\<close> resolves with a report that has
  a summary and a risk level and no \<^verbatim>\<open>recommendations\<close>. The timeout stores it with no error;
  the render of the report then throws at \<^verbatim>\<open>report.recommendations.map\<close> (line 801) and
  React unmounts the component. The form is gone: typing a number and submitting change
  nothing, so nothing is cleared and nothing is shown again.
\<close>

theorem form_is_gone_after_partial_report:
  "report partial_answer_v3 = partial_report \<and> error partial_answer_v3 = None \<and>
   \<not> isScanning partial_answer_v3 \<and> phoneNumber partial_answer_v3 = sample_number \<and>
   property ''recommendations'' (report partial_answer_v3) = None \<and>
   unmounted partial_answer_v3 \<and>
   step V3 (sample_env None) partial_answer_v3 Submit = partial_answer_v3 \<and>
   run V3 (sample_env None) partial_answer_v3 [SetPhoneNumber ''+62812'', Submit] =
     partial_answer_v3"
proof -
  have 1: "report partial_answer_v3 = partial_report \<and> error partial_answer_v3 = None \<and>
   \<not> isScanning partial_answer_v3 \<and> phoneNumber partial_answer_v3 = sample_number \<and>
   property ''recommendations'' (report partial_answer_v3) = None \<and>
   unmounted partial_answer_v3"
    by (simp add: partial_answer_v3_def scanning_v3_def eval_defs JSON_parse_text_partial
        partial_text_nonempty partial_report_def)
  then have 2: "step V3 (sample_env None) partial_answer_v3 Submit = partial_answer_v3"
    by (simp add: step_unmounted)
  from 1 have 3: "run V3 (sample_env None) partial_answer_v3 [SetPhoneNumber ''+62812'', Submit] =
     partial_answer_v3"
    by (simp add: step_unmounted)
  from 1 2 3 show ?thesis by blast
qed

section \<open>Sessions\<close>

text \<open>
  C6. In every state the component can reach, each call and each timeout still pending
  was started by the latest submission: the submit button is disabled while a scan runs,
  so no submission supersedes a scan that still has a completion to come. Any other
  settling of a call or firing of a timeout changes nothing in the state, so only
  completions of the current session are applied to the report, the error and
  \<^verbatim>\<open>isScanning\<close>.
\<close>

theorem only_current_session_completes:
  assumes "s = run v e init xs"
  shows "(\<forall>q \<in> set (requests s). req_session q = session s) \<and>
         (\<forall>t \<in> set (timeouts s). tmo_session t = session s) \<and>
         (find (\<lambda>q. rid q = i \<and> req_session q = session s) (requests s) = None \<longrightarrow>
            step v e s (Response i out) = s) \<and>
         (find (\<lambda>t. tid t = i \<and> tmo_session t = session s) (timeouts s) = None \<longrightarrow>
            step v e s (Fire i) = s)"
proof -
  have rd: "rendered s" unfolding assms by (rule rendered_reachable)
  have inv: "single_session s" unfolding assms by (rule single_session_reachable)
  then have q: "\<forall>q \<in> set (requests s). req_session q = session s"
    and t: "\<forall>t \<in> set (timeouts s). tmo_session t = session s"
    by (simp_all add: single_session_def)
  have r: "step v e s (Response i out) = s"
    if "find (\<lambda>q. rid q = i \<and> req_session q = session s) (requests s) = None"
  proof -
    from that q have "find (\<lambda>q. rid q = i) (requests s) = None"
      by (auto simp: find_None_iff)
    then show ?thesis using rd by (simp add: step_def rendered_def)
  qed
  have f: "step v e s (Fire i) = s"
    if "find (\<lambda>t. tid t = i \<and> tmo_session t = session s) (timeouts s) = None"
  proof -
    from that t have "find (\<lambda>t. tid t = i \<and> due t \<le> now s) (timeouts s) = None"
      by (auto simp: find_None_iff)
    then show ?thesis using rd by (simp add: step_def rendered_def)
  qed
  from q t r f show ?thesis by blast
qed

theorem only_current_session_completes_witness:
  "scanning_v3 = run V3 (sample_env None) init [SetPhoneNumber sample_number, Submit] \<and>
   map req_session (requests scanning_v3) = [session scanning_v3] \<and>
   map tmo_session (timeouts answer_due_v3) = [session answer_due_v3] \<and>
   find (\<lambda>q. rid q = 0 \<and> req_session q = session scanning_v3) (requests scanning_v3) = None \<and>
   step V3 (sample_env None) scanning_v3 (Response 0 (Resolved None)) = scanning_v3 \<and>
   find (\<lambda>t. tid t = 0 \<and> tmo_session t = session scanning_v3) (timeouts scanning_v3) = None \<and>
   step V3 (sample_env None) scanning_v3 (Fire 0) = scanning_v3"
proof -
  have 1: "scanning_v3 = run V3 (sample_env None) init [SetPhoneNumber sample_number, Submit]"
    by (rule scanning_v3_def)
  have 2: "map req_session (requests scanning_v3) = [session scanning_v3]"
    using scanning_v3_fields only_current_session_completes [OF 1] by simp
  have 3: "find (\<lambda>q. rid q = 0 \<and> req_session q = session scanning_v3) (requests scanning_v3) = None"
    using scanning_v3_fields by simp
  have 4: "find (\<lambda>t. tid t = 0 \<and> tmo_session t = session scanning_v3) (timeouts scanning_v3) = None"
    using scanning_v3_fields by simp
  have 5: "map tmo_session (timeouts answer_due_v3) = [session answer_due_v3]"
    using answer_due_v3_fields only_current_session_completes [OF answer_due_v3_def] by simp
  from only_current_session_completes [OF 1, where i = 0 and out = "Resolved None"] 1 2 3 4 5
  show ?thesis by blast
qed

section \<open>The answer of the model\<close>

text \<open>
  C1, at a failing input. The call of a scan of \<open>V3\<close> resolves with no text. The text
  is replaced by \<^verbatim>\<open>{}\<close> and parsed, and the timeout stores the empty object, which has none
  of the required fields, as the report: no error is set. The render of the report then
  throws at \<^verbatim>\<open>report.recommendations.map\<close> (line 801) and React unmounts the component.
\<close>

theorem empty_response_becomes_the_report:
  "report empty_answer_v3 = JObj [] \<and> error empty_answer_v3 = None \<and>
   \<not> isScanning empty_answer_v3 \<and> \<not> has_required_fields (report empty_answer_v3) \<and>
   property ''recommendations'' (report empty_answer_v3) = None \<and>
   unmounted empty_answer_v3"
  by (simp add: empty_answer_v3_def scanning_v3_def eval_defs JSON_parse_text_empty_object
      has_required_fields_def has_field_def)

section \<open>The progress timer\<close>

text \<open>
  C3, at a failing input. The call of a scan of \<open>V3\<close> is rejected. The error is shown
  and scanning is over, but the interval with handle 0 is still set and its tick still
  moves the progress. The next submission sets a second interval beside it, and both add
  to the progress of the new scan.
\<close>

theorem interval_outlives_failed_scan:
  "\<not> isScanning failed_v3 \<and> error failed_v3 = Some ''Gagal mendapatkan laporan intelijen.'' \<and>
   intervals failed_v3 = [0] \<and>
   scanProgress (step V3 (sample_env None) failed_v3 (Tick 0 (1/2))) = 15 / 2 \<and>
   intervals (run V3 (sample_env None) failed_v3 [Submit]) = [0, 2] \<and>
   scanProgress (run V3 (sample_env None) failed_v3 [Submit]) = 0 \<and>
   scanProgress (run V3 (sample_env None) failed_v3 [Submit, Tick 0 (1/2), Tick 2 (1/2)]) = 15"
  by (simp add: failed_v3_def scanning_v3_def eval_defs)

text \<open>
  C2, at a failing input. A scan of \<open>V3\<close> waits for its call while the interval ticks
  with \<^verbatim>\<open>Math.random()\<close> at one half: after 13 ticks the progress is 97.5, the 14th tick
  adds 7.5 without clamping and the progress is 105, and the 15th tick sets it back to
  100. The scan is still running.
\<close>

theorem progress_passes_100_and_drops_back:
  "isScanning (ticking 15) \<and> scanProgress (ticking 13) = 195 / 2 \<and>
   scanProgress (ticking 14) = 105 \<and> scanProgress (ticking 15) = 100"
  by (simp add: ticking_def numeral_eq_Suc scanning_v3_def eval_defs)

section \<open>The pause before the report is shown\<close>

text \<open>
  C7, a counterexample. The pause does not wait for the progress to reach completion: in
  the run \<open>early_answer\<close> of \<open>V3\<close> the timeout is due at 2900 ms, the scan is still
  running with the progress at 52.5, and the timeout then sets the report and ends the
  scan.
\<close>

theorem success_before_progress_completes:
  "isScanning (run V3 (sample_env None) scanning_v3 early_answer) \<and>
   scanProgress (run V3 (sample_env None) scanning_v3 early_answer) = 105 / 2 \<and>
   now (run V3 (sample_env None) scanning_v3 early_answer) = 2900 \<and>
   report (run V3 (sample_env None) scanning_v3 (early_answer @ [Fire 2])) = sample_report \<and>
   \<not> isScanning (run V3 (sample_env None) scanning_v3 (early_answer @ [Fire 2]))"
  by (simp add: early_answer_def scanning_v3_def eval_defs JSON_parse_text_sample sample_text_nonempty)

lemma report_appears_deliver:
  assumes "report s = JNull" and "report (deliver v e s x) \<noteq> JNull"
  shows "\<exists>t \<in> set (timeouts s). x = Fire (tid t) \<and> due t \<le> now s \<and>
           report (deliver v e s x) = result t"
proof (cases x)
  case (Fire i)
  show ?thesis
  proof (cases "find (\<lambda>t. tid t = i \<and> due t \<le> now s) (timeouts s)")
    case None
    with assms Fire show ?thesis by simp
  next
    case (Some t)
    then have "t \<in> set (timeouts s) \<and> tid t = i \<and> due t \<le> now s"
      by (auto simp: find_Some_iff in_set_conv_nth)
    with Some Fire show ?thesis by (auto simp: fire_def)
  qed
next
  case Submit
  with assms show ?thesis by (auto simp: report_handleSearch split: if_splits)
next
  case (Response i out)
  with assms show ?thesis
    by (cases out) (auto simp: handler_defs split: if_splits sum.splits option.splits)
next
  case (Tick i r)
  with assms show ?thesis by (auto simp: tick_def split: if_splits)
qed (insert assms, auto split: if_splits)

lemma report_appears:
  assumes "report s = JNull" and "report (step v e s x) \<noteq> JNull"
  shows "\<exists>t \<in> set (timeouts s). x = Fire (tid t) \<and> due t \<le> now s \<and>
           report (step v e s x) = result t"
proof (cases "unmounted s")
  case True
  with assms show ?thesis by (simp add: step_def)
next
  case False
  then have "report (step v e s x) = report (deliver v e s x)" by (simp add: step_def)
  with assms report_appears_deliver [of s v e x] show ?thesis by simp
qed

text \<open>
  C7, amended. When a call resolves with a text that parses, the report is not set yet:
  a timeout is scheduled for 1500 ms (\<open>V2\<close>) or 2000 ms (\<open>V3\<close>) after that moment,
  whatever the progress is, and the scan goes on. A report appears only when such a
  timeout runs, not before it is due, and that callback sets the progress to 100 in the
  same step: in every state the component can reach, a report is on the screen only with
  the scan over and the progress at 100.
\<close>

theorem success_follows_the_pause_only:
  assumes "s = run v e init xs"
  shows "(find (\<lambda>q. rid q = i) (requests s) = Some q \<and>
          JSON_parse e (or_else body ''{}'') = Inr j \<longrightarrow>
            timeouts (step v e s (Response i (Resolved body))) =
              [\<lparr>tid = next_id s, due = now s + pause v, result = j, tmo_session = session s\<rparr>] \<and>
            isScanning (step v e s (Response i (Resolved body))) \<and>
            report (step v e s (Response i (Resolved body))) = JNull \<and>
            scanProgress (step v e s (Response i (Resolved body))) = scanProgress s) \<and>
         pause V2 = 1500 \<and> pause V3 = 2000 \<and>
         (report s = JNull \<and> report (step v e s x) \<noteq> JNull \<longrightarrow>
            (\<exists>t \<in> set (timeouts s). x = Fire (tid t) \<and> due t \<le> now s \<and>
               report (step v e s x) = result t)) \<and>
         (report s \<noteq> JNull \<longrightarrow> \<not> isScanning s \<and> scanProgress s = 100)"
proof -
  have 1: "timeouts (step v e s (Response i (Resolved body))) =
              [\<lparr>tid = next_id s, due = now s + pause v, result = j, tmo_session = session s\<rparr>] \<and>
            isScanning (step v e s (Response i (Resolved body))) \<and>
            report (step v e s (Response i (Resolved body))) = JNull \<and>
            scanProgress (step v e s (Response i (Resolved body))) = scanProgress s"
    if "find (\<lambda>q. rid q = i) (requests s) = Some q"
      and "JSON_parse e (or_else body ''{}'') = Inr j"
    using pending_reachable [OF assms that(1)] that
    by (simp add: step_def resume_def after_response_def)
  have 2: "pause V2 = 1500 \<and> pause V3 = 2000" by (simp add: pause_def)
  have 3: "report s = JNull \<and> report (step v e s x) \<noteq> JNull \<longrightarrow>
            (\<exists>t \<in> set (timeouts s). x = Fire (tid t) \<and> due t \<le> now s \<and>
               report (step v e s x) = result t)"
    using report_appears by blast
  have "settled s" unfolding assms by (rule settled_reachable)
  then have 4: "report s \<noteq> JNull \<longrightarrow> \<not> isScanning s \<and> scanProgress s = 100"
    by (simp add: settled_def)
  from 1 2 3 4 show ?thesis by blast
qed

theorem success_follows_the_pause_only_witness:
  "scanning_v3 = run V3 (sample_env None) init [SetPhoneNumber sample_number, Submit] \<and>
   find (\<lambda>q. rid q = 1) (requests scanning_v3) =
     Some \<lparr>rid = 1, stage = Primary, subject = sample_phone, req_session = 1\<rparr> \<and>
   JSON_parse (sample_env None) (or_else (Some sample_text) ''{}'') = Inr sample_report \<and>
   timeouts (step V3 (sample_env None) scanning_v3 (Response 1 (Resolved (Some sample_text)))) =
     [\<lparr>tid = 2, due = 2000, result = sample_report, tmo_session = 1\<rparr>] \<and>
   isScanning (step V3 (sample_env None) scanning_v3 (Response 1 (Resolved (Some sample_text)))) \<and>
   report answer_due_v3 = JNull \<and>
   report (step V3 (sample_env None) answer_due_v3 (Fire 2)) \<noteq> JNull \<and>
   timeouts answer_due_v3 \<noteq> [] \<and>
   report answered_v3 \<noteq> JNull \<and> \<not> isScanning answered_v3 \<and> scanProgress answered_v3 = 100"
proof -
  have 1: "scanning_v3 = run V3 (sample_env None) init [SetPhoneNumber sample_number, Submit]"
    by (rule scanning_v3_def)
  have 2: "find (\<lambda>q. rid q = 1) (requests scanning_v3) =
     Some \<lparr>rid = 1, stage = Primary, subject = sample_phone, req_session = 1\<rparr>"
    using scanning_v3_fields by simp
  have 3: "JSON_parse (sample_env None) (or_else (Some sample_text) ''{}'') = Inr sample_report"
    by (simp add: sample_env_def or_else_def JSON_parse_text_sample sample_text_nonempty)
  from success_follows_the_pause_only
    [OF 1, where i = 1 and body = "Some sample_text" and j = sample_report
       and q = "\<lparr>rid = 1, stage = Primary, subject = sample_phone, req_session = 1\<rparr>"] 2 3
  have 4: "timeouts (step V3 (sample_env None) scanning_v3 (Response 1 (Resolved (Some sample_text)))) =
     [\<lparr>tid = next_id scanning_v3, due = now scanning_v3 + pause V3, result = sample_report,
       tmo_session = session scanning_v3\<rparr>] \<and>
   isScanning (step V3 (sample_env None) scanning_v3 (Response 1 (Resolved (Some sample_text))))"
    by blast
  have 5: "report answered_v3 \<noteq> JNull"
    by (simp add: answered_v3_def eval_defs JSON_parse_text_sample sample_text_nonempty
        sample_report_def)
  from success_follows_the_pause_only [OF answered_v3_def] 5
  have 6: "\<not> isScanning answered_v3 \<and> scanProgress answered_v3 = 100" by blast
  have 7: "report answer_due_v3 = JNull \<and>
    report (step V3 (sample_env None) answer_due_v3 (Fire 2)) \<noteq> JNull"
    using answer_due_v3_fields by (simp add: step_def fire_def sample_report_def)
  from success_follows_the_pause_only [OF answer_due_v3_def, where x = "Fire 2"] 7
  have 8: "timeouts answer_due_v3 \<noteq> []" by auto
  from 1 2 3 4 5 6 7 8 scanning_v3_fields show ?thesis by (simp add: pause_def)
qed

section \<open>The fallback model of \<open>V2\<close>\<close>






end
